theory Spec2Isabelle
  imports Main "HOL-Library.Word"
begin

section \<open>Data model\<close>

text \<open>
  The public API layer (\<^verbatim>\<open>public-api/internal\<close>) composes the listing service and
  the user service. Go's \<^verbatim>\<open>int64\<close> is a 64-bit word read as two's complement; Go's
  \<^verbatim>\<open>int\<close> (page number and page size) is only compared with 1 and passed on, so it is an
  \<open>int\<close>. A pointer that may be \<^verbatim>\<open>nil\<close> is an \<open>option\<close>; a \<^verbatim>\<open>nil\<close> slice is the empty
  list.
\<close>

type_synonym int64 = "64 word"

text \<open>\<^verbatim>\<open>client.Listing\<close> (listing_service_client.go).\<close>

record Listing =
  l_ID :: int64
  l_UserID :: int64
  l_ListingType :: string
  l_Price :: int64
  l_CreatedAt :: int64
  l_UpdatedAt :: int64

text \<open>\<^verbatim>\<open>client.User\<close> (user_service_client.go).\<close>

record User =
  u_ID :: int64
  u_Name :: string
  u_CreatedAt :: int64
  u_UpdatedAt :: int64

text \<open>\<^verbatim>\<open>client.ListingServiceResponse\<close> and \<^verbatim>\<open>client.UserServiceResponse\<close>.\<close>

record ListingServiceResponse =
  ls_Result :: bool
  ls_Listings :: "Listing list"
  ls_Listing :: "Listing option"
  ls_Error :: string

record UserServiceResponse =
  us_Result :: bool
  us_Users :: "User list"
  us_User :: "User option"
  us_Error :: string

text \<open>\<^verbatim>\<open>handler.PublicListing\<close> and \<^verbatim>\<open>handler.PublicListingsResponse\<close>.\<close>

record PublicListing =
  pl_ID :: int64
  pl_ListingType :: string
  pl_Price :: int64
  pl_CreatedAt :: int64
  pl_UpdatedAt :: int64
  pl_User :: "User option"

record PublicListingsResponse =
  Result :: bool
  Listings :: "PublicListing list"
  Error :: string

section \<open>The HTTP exchange and the errors of the clients\<close>

text \<open>
  One exchange of a client with its service: \<^verbatim>\<open>http.NewRequest\<close> fails, or
  \<^verbatim>\<open>httpClient.Do\<close> fails, or a response arrives with a status code and a body. The body
  is kept as the outcome of \<^verbatim>\<open>json.NewDecoder(resp.Body).Decode\<close>: \<open>None\<close> when decoding
  fails.
\<close>

datatype 'a exchange =
  NewRequestFailed
  | DoFailed
  | Response nat "'a option"

text \<open>The errors the clients build with \<^verbatim>\<open>fmt.Errorf\<close>, one constructor per message.\<close>

datatype error =
  FailedToCreateRequest
  | FailedToSendRequest
  | NonOKStatus nat
  | FailedToDecode
  | ReportedError string

text \<open>
  A client is its \<^verbatim>\<open>httpClient\<close> and \<^verbatim>\<open>baseURL\<close>: what the service at that address
  answers to each request the client can send.
\<close>

record UserServiceClient =
  post_users :: "string \<Rightarrow> UserServiceResponse exchange"
  get_users_id :: "int64 \<Rightarrow> UserServiceResponse exchange"

record ListingServiceClient =
  post_listings :: "int64 \<Rightarrow> string \<Rightarrow> int64 \<Rightarrow> ListingServiceResponse exchange"
  get_listings :: "int \<Rightarrow> int \<Rightarrow> string option \<Rightarrow> ListingServiceResponse exchange"

record PublicAPIHandler =
  userServiceClient :: UserServiceClient
  listingServiceClient :: ListingServiceClient

section \<open>The clients\<close>

definition StatusOK :: nat where "StatusOK = 200"
definition StatusBadRequest :: nat where "StatusBadRequest = 400"
definition StatusNotFound :: nat where "StatusNotFound = 404"
definition StatusInternalServerError :: nat where "StatusInternalServerError = 500"

text \<open>\<^verbatim>\<open>UserServiceClient.CreateUser\<close>: a pair \<^verbatim>\<open>(*User, error)\<close>.\<close>

definition CreateUser :: "UserServiceClient \<Rightarrow> string \<Rightarrow> error + User option" where
  "CreateUser c name =
     (case post_users c name of
        NewRequestFailed \<Rightarrow> Inl FailedToCreateRequest
      | DoFailed \<Rightarrow> Inl FailedToSendRequest
      | Response code decoded \<Rightarrow>
          if code \<noteq> StatusOK then Inl (NonOKStatus code)
          else (case decoded of
                  None \<Rightarrow> Inl FailedToDecode
                | Some apiResp \<Rightarrow>
                    if \<not> us_Result apiResp then Inl (ReportedError (us_Error apiResp))
                    else Inr (us_User apiResp)))"

text \<open>
  \<^verbatim>\<open>UserServiceClient.GetUserByID\<close>: status 404 is \<^verbatim>\<open>(nil, nil)\<close>, the user was not
  found. The parameter \<^verbatim>\<open>id\<close> is written \<open>uid\<close>.
\<close>

definition GetUserByID :: "UserServiceClient \<Rightarrow> int64 \<Rightarrow> error + User option" where
  "GetUserByID c uid =
     (case get_users_id c uid of
        NewRequestFailed \<Rightarrow> Inl FailedToCreateRequest
      | DoFailed \<Rightarrow> Inl FailedToSendRequest
      | Response code decoded \<Rightarrow>
          if code = StatusNotFound then Inr None
          else if code \<noteq> StatusOK then Inl (NonOKStatus code)
          else (case decoded of
                  None \<Rightarrow> Inl FailedToDecode
                | Some apiResp \<Rightarrow>
                    if \<not> us_Result apiResp then Inl (ReportedError (us_Error apiResp))
                    else Inr (us_User apiResp)))"

text \<open>\<^verbatim>\<open>ListingServiceClient.CreateListing\<close>.\<close>

definition CreateListing ::
  "ListingServiceClient \<Rightarrow> int64 \<Rightarrow> string \<Rightarrow> int64 \<Rightarrow> error + Listing option" where
  "CreateListing c userID listingType price =
     (case post_listings c userID listingType price of
        NewRequestFailed \<Rightarrow> Inl FailedToCreateRequest
      | DoFailed \<Rightarrow> Inl FailedToSendRequest
      | Response code decoded \<Rightarrow>
          if code \<noteq> StatusOK then Inl (NonOKStatus code)
          else (case decoded of
                  None \<Rightarrow> Inl FailedToDecode
                | Some apiResp \<Rightarrow>
                    if \<not> ls_Result apiResp then Inl (ReportedError (ls_Error apiResp))
                    else Inr (ls_Listing apiResp)))"

text \<open>
  \<^verbatim>\<open>ListingServiceClient.GetListings\<close>: the query carries \<^verbatim>\<open>page_num\<close> and
  \<^verbatim>\<open>page_size\<close>, and \<^verbatim>\<open>user_id\<close> only when the filter is not the empty string.
\<close>

definition GetListings ::
  "ListingServiceClient \<Rightarrow> int \<Rightarrow> int \<Rightarrow> string \<Rightarrow> error + Listing list" where
  "GetListings c pageNum pageSize userID =
     (case get_listings c pageNum pageSize (if userID \<noteq> [] then Some userID else None) of
        NewRequestFailed \<Rightarrow> Inl FailedToCreateRequest
      | DoFailed \<Rightarrow> Inl FailedToSendRequest
      | Response code decoded \<Rightarrow>
          if code \<noteq> StatusOK then Inl (NonOKStatus code)
          else (case decoded of
                  None \<Rightarrow> Inl FailedToDecode
                | Some apiResp \<Rightarrow>
                    if \<not> ls_Result apiResp then Inl (ReportedError (ls_Error apiResp))
                    else Inr (ls_Listings apiResp)))"

section \<open>The handlers\<close>

text \<open>
  What a handler writes to its \<^verbatim>\<open>http.ResponseWriter\<close>: the status code (200 unless
  \<^verbatim>\<open>WriteHeader\<close> is called) and the value given to the JSON encoder.
\<close>

datatype response_body =
  ErrorBody string
  | PublicUserResponse "User option"
  | ListingBody "Listing option"
  | ListingsBody PublicListingsResponse

record http_response =
  status :: nat
  body :: response_body

text \<open>
  The calls a handler makes on its two clients, in a log that every handler returns
  beside its response.
\<close>

datatype upstream_call =
  CallCreateUser string
  | CallCreateListing int64 string int64
  | CallGetListings int int string
  | CallGetUserByID int64

subsection \<open>Creating a user and a listing\<close>

text \<open>
  \<^verbatim>\<open>CreatePublicUser\<close>. The argument is the request body as the JSON decoder leaves
  it: \<open>None\<close> when decoding fails, otherwise the field \<^verbatim>\<open>Name\<close>.
\<close>

definition CreatePublicUser ::
  "PublicAPIHandler \<Rightarrow> string option \<Rightarrow> http_response \<times> upstream_call list" where
  "CreatePublicUser h requestBody =
     (case requestBody of
        None \<Rightarrow>
          (\<lparr>status = StatusBadRequest, body = ErrorBody ''Invalid request body''\<rparr>, [])
      | Some name \<Rightarrow>
          if name = [] then
            (\<lparr>status = StatusBadRequest, body = ErrorBody ''User name is required''\<rparr>, [])
          else
            (case CreateUser (userServiceClient h) name of
               Inl err \<Rightarrow>
                 (\<lparr>status = StatusInternalServerError,
                   body = ErrorBody ''Failed to create user''\<rparr>, [CallCreateUser name])
             | Inr user \<Rightarrow>
                 (\<lparr>status = StatusOK, body = PublicUserResponse user\<rparr>,
                  [CallCreateUser name])))"

text \<open>The decoded body of a create-listing request.\<close>

record create_listing_body =
  UserID :: int64
  ListingType :: string
  Price :: int64

text \<open>
  \<^verbatim>\<open>CreatePublicListing\<close>. \<^verbatim>\<open>Price <= 0\<close> compares signed 64-bit integers.
\<close>

definition CreatePublicListing ::
  "PublicAPIHandler \<Rightarrow> create_listing_body option \<Rightarrow> http_response \<times> upstream_call list"
  where
  "CreatePublicListing h requestBody =
     (case requestBody of
        None \<Rightarrow>
          (\<lparr>status = StatusBadRequest, body = ErrorBody ''Invalid request body''\<rparr>, [])
      | Some b \<Rightarrow>
          if UserID b = 0 \<or> ListingType b = [] \<or> Price b \<le>s 0 then
            (\<lparr>status = StatusBadRequest,
              body = ErrorBody ''User ID, listing type, and price are required and valid''\<rparr>,
             [])
          else if ListingType b \<noteq> ''rent'' \<and> ListingType b \<noteq> ''sale'' then
            (\<lparr>status = StatusBadRequest,
              body = ErrorBody (''Listing type must be 'rent' or 'sale'' @ [CHR 0x27])\<rparr>, [])
          else
            (case CreateListing (listingServiceClient h) (UserID b) (ListingType b) (Price b) of
               Inl err \<Rightarrow>
                 (\<lparr>status = StatusInternalServerError,
                   body = ErrorBody ''Failed to create listing''\<rparr>,
                  [CallCreateListing (UserID b) (ListingType b) (Price b)])
             | Inr listing \<Rightarrow>
                 (\<lparr>status = StatusOK, body = ListingBody listing\<rparr>,
                  [CallCreateListing (UserID b) (ListingType b) (Price b)])))"

subsection \<open>The enriched listing page\<close>

text \<open>
  The query of a \<^verbatim>\<open>GET /public-api/listings\<close> request: what
  \<^verbatim>\<open>r.URL.Query().Get\<close> returns for each of the three keys (the empty string when the
  key is absent).
\<close>

record listings_request =
  page_num :: string
  page_size :: string
  user_id :: string

text \<open>
  \<^verbatim>\<open>strconv.Atoi\<close> belongs to Go's standard library; the handler takes it as the
  parameter \<open>atoi\<close>, an error (of any type \<open>'e\<close>: the handler only tests
  \<^verbatim>\<open>err != nil\<close>) or an integer for each string.
\<close>

type_synonym 'e atoi = "string \<Rightarrow> 'e + int"

definition pageNum :: "'e atoi \<Rightarrow> listings_request \<Rightarrow> int" where
  "pageNum atoi r =
     (case atoi (page_num r) of
        Inl err \<Rightarrow> 1
      | Inr n \<Rightarrow> if n < 1 then 1 else n)"

definition pageSize :: "'e atoi \<Rightarrow> listings_request \<Rightarrow> int" where
  "pageSize atoi r =
     (case atoi (page_size r) of
        Inl err \<Rightarrow> 10
      | Inr n \<Rightarrow> if n < 1 then 10 else n)"

text \<open>Step 2 of \<^verbatim>\<open>GetPublicListings\<close>: the keys of the map \<^verbatim>\<open>uniqueUserIDs\<close>.\<close>

fun uniqueUserIDs :: "Listing list \<Rightarrow> int64 set \<Rightarrow> int64 set" where
  "uniqueUserIDs [] ids = ids"
| "uniqueUserIDs (listing # listings) ids = uniqueUserIDs listings (insert (l_UserID listing) ids)"

text \<open>
  Step 3: the state the goroutines share. \<^verbatim>\<open>userMap\<close> is written under the mutex,
  \<^verbatim>\<open>errorsChan\<close> is a buffered channel (its content, oldest first), and \<open>lookups\<close> logs
  the identifiers \<^verbatim>\<open>GetUserByID\<close> was called with.
\<close>

record fanout =
  userMap :: "int64 \<rightharpoonup> User"
  errorsChan :: "(int64 \<times> error) list"
  lookups :: "int64 list"

text \<open>
  One goroutine, run for the identifier \<open>uid\<close>. It calls \<^verbatim>\<open>GetUserByID\<close>; on an error
  it sends to \<^verbatim>\<open>errorsChan\<close>, whose capacity is \<open>cap\<close>: a send on a full channel blocks
  for ever, and the goroutine never reaches \<^verbatim>\<open>wg.Done\<close> (\<open>None\<close>). A user that is not
  \<^verbatim>\<open>nil\<close> is stored in \<^verbatim>\<open>userMap\<close>.
\<close>

definition fetchUser :: "UserServiceClient \<Rightarrow> nat \<Rightarrow> int64 \<Rightarrow> fanout \<Rightarrow> fanout option" where
  "fetchUser c cap uid st =
     (let st = st\<lparr>lookups := lookups st @ [uid]\<rparr> in
      case GetUserByID c uid of
        Inl err \<Rightarrow>
          if length (errorsChan st) < cap
          then Some (st\<lparr>errorsChan := errorsChan st @ [(uid, err)]\<rparr>)
          else None
      | Inr None \<Rightarrow> Some st
      | Inr (Some user) \<Rightarrow> Some (st\<lparr>userMap := (userMap st)(uid \<mapsto> user)\<rparr>))"

text \<open>
  The goroutines up to \<^verbatim>\<open>wg.Wait\<close>, taking effect in the order of the list. Each
  goroutine writes its own key of \<^verbatim>\<open>userMap\<close> and sends at most one error, so one list
  orders both the calls and the writes.
\<close>

fun runAll :: "UserServiceClient \<Rightarrow> nat \<Rightarrow> int64 list \<Rightarrow> fanout \<Rightarrow> fanout option" where
  "runAll c cap [] st = Some st"
| "runAll c cap (uid # uids) st =
     (case fetchUser c cap uid st of
        None \<Rightarrow> None
      | Some st' \<Rightarrow> runAll c cap uids st')"

text \<open>
  \<^verbatim>\<open>for userID := range uniqueUserIDs\<close> starts one goroutine for each key of the map. Go
  fixes neither the order in which \<^verbatim>\<open>range\<close> visits the keys nor the order in which
  goroutines run: the parameter \<open>sched\<close> ranks the identifiers, and the goroutines take
  effect by rank (keys of equal rank by value).
\<close>

definition goroutineOrder :: "(int64 \<Rightarrow> nat) \<Rightarrow> int64 set \<Rightarrow> int64 list" where
  "goroutineOrder sched ids = sort_key sched (sorted_list_of_set ids)"

text \<open>
  Steps 2 and 3 together, from the page to the state after \<^verbatim>\<open>wg.Wait\<close>. The capacity
  of \<^verbatim>\<open>errorsChan\<close> is \<^verbatim>\<open>len(uniqueUserIDs)\<close>.
\<close>

definition fetchUsers ::
  "PublicAPIHandler \<Rightarrow> (int64 \<Rightarrow> nat) \<Rightarrow> Listing list \<Rightarrow> fanout option" where
  "fetchUsers h sched listings =
     (let ids = uniqueUserIDs listings {} in
      runAll (userServiceClient h) (card ids) (goroutineOrder sched ids)
        \<lparr>userMap = Map.empty, errorsChan = [], lookups = []\<rparr>)"

text \<open>Step 4: the loop that appends one \<^verbatim>\<open>PublicListing\<close> for each listing.\<close>

definition publicListing :: "(int64 \<rightharpoonup> User) \<Rightarrow> Listing \<Rightarrow> PublicListing" where
  "publicListing um listing =
     \<lparr>pl_ID = l_ID listing,
      pl_ListingType = l_ListingType listing,
      pl_Price = l_Price listing,
      pl_CreatedAt = l_CreatedAt listing,
      pl_UpdatedAt = l_UpdatedAt listing,
      pl_User = um (l_UserID listing)\<rparr>"

fun aggregate :: "(int64 \<rightharpoonup> User) \<Rightarrow> Listing list \<Rightarrow> PublicListing list \<Rightarrow> PublicListing list"
  where
  "aggregate um [] publicListings = publicListings"
| "aggregate um (listing # listings) publicListings =
     aggregate um listings (publicListings @ [publicListing um listing])"

text \<open>
  \<^verbatim>\<open>GetPublicListings\<close>. The loop over \<^verbatim>\<open>errorsChan\<close> after \<^verbatim>\<open>close\<close> has an empty
  body and is left out. \<open>None\<close>: the handler never answers.
\<close>

definition GetPublicListings ::
  "'e atoi \<Rightarrow> PublicAPIHandler \<Rightarrow> (int64 \<Rightarrow> nat) \<Rightarrow> listings_request \<Rightarrow>
   (http_response \<times> upstream_call list) option" where
  "GetPublicListings atoi h sched r =
     (let userIDFilter = user_id r;
          pn = pageNum atoi r;
          ps = pageSize atoi r
      in case GetListings (listingServiceClient h) pn ps userIDFilter of
           Inl err \<Rightarrow>
             Some (\<lparr>status = StatusInternalServerError,
                    body = ListingsBody
                      \<lparr>Result = False, Listings = [], Error = ''Failed to retrieve listings''\<rparr>\<rparr>,
                   [CallGetListings pn ps userIDFilter])
         | Inr listings \<Rightarrow>
             if length listings = 0 then
               Some (\<lparr>status = StatusOK,
                      body = ListingsBody \<lparr>Result = True, Listings = [], Error = []\<rparr>\<rparr>,
                     [CallGetListings pn ps userIDFilter])
             else
               (case fetchUsers h sched listings of
                  None \<Rightarrow> None
                | Some st \<Rightarrow>
                    Some (\<lparr>status = StatusOK,
                           body = ListingsBody
                             \<lparr>Result = True,
                              Listings = aggregate (userMap st) listings [],
                              Error = []\<rparr>\<rparr>,
                          CallGetListings pn ps userIDFilter
                            # map CallGetUserByID (lookups st))))"

section \<open>Vocabulary of the statements\<close>

text \<open>The identifiers of the \<^verbatim>\<open>GetUserByID\<close> calls in a log, in the order of the log.\<close>

fun userLookups :: "upstream_call list \<Rightarrow> int64 list" where
  "userLookups [] = []"
| "userLookups (CallGetUserByID uid # calls) = uid # userLookups calls"
| "userLookups (call # calls) = userLookups calls"

text \<open>
  What \<^verbatim>\<open>GetUserByID\<close> yields for one identifier, read as the handler reads it: the user
  when there is one, and the error paired with its identifier when the lookup fails.
\<close>

definition foundUser :: "UserServiceClient \<Rightarrow> int64 \<Rightarrow> User option" where
  "foundUser c uid = (case GetUserByID c uid of Inl err \<Rightarrow> None | Inr user \<Rightarrow> user)"

definition failedLookups :: "UserServiceClient \<Rightarrow> int64 list \<Rightarrow> (int64 \<times> error) list" where
  "failedLookups c uids =
     concat (map (\<lambda>uid. case GetUserByID c uid of Inl err \<Rightarrow> [(uid, err)] | Inr user \<Rightarrow> [])
               uids)"

text \<open>The position of an identifier in a list, as a rank for \<open>goroutineOrder\<close>.\<close>

fun rankIn :: "int64 list \<Rightarrow> int64 \<Rightarrow> nat" where
  "rankIn [] uid = 0"
| "rankIn (k # ks) uid = (if uid = k then 0 else Suc (rankIn ks uid))"

section \<open>A concrete handler\<close>

text \<open>
  The services of a small installation, used to run the handlers on concrete requests.
  User 5 exists, the lookup of user 9 fails in transport, every other user is unknown
  (404). Page 1 of the listings holds three listings of users 5, 5 and 9; page 2 cannot
  be fetched; the filter \<^verbatim>\<open>user_id=7\<close> gives an empty page.
\<close>

definition example_user :: User where
  "example_user = \<lparr>u_ID = 5, u_Name = ''A'', u_CreatedAt = 100, u_UpdatedAt = 100\<rparr>"

definition example_listing :: "int64 \<Rightarrow> int64 \<Rightarrow> Listing" where
  "example_listing i u =
     \<lparr>l_ID = i, l_UserID = u, l_ListingType = ''rent'', l_Price = 4500,
      l_CreatedAt = 200 + i, l_UpdatedAt = 300 + i\<rparr>"

definition example_page :: "Listing list" where
  "example_page = [example_listing 1 5, example_listing 2 5, example_listing 3 9]"

definition example_users :: UserServiceClient where
  "example_users =
     \<lparr>post_users = (\<lambda>name.
        Response 200
          (Some \<lparr>us_Result = True, us_Users = [],
                 us_User = Some \<lparr>u_ID = 6, u_Name = name, u_CreatedAt = 400, u_UpdatedAt = 400\<rparr>,
                 us_Error = []\<rparr>)),
      get_users_id = (\<lambda>uid.
        if uid = 5 then
          Response 200
            (Some \<lparr>us_Result = True, us_Users = [], us_User = Some example_user, us_Error = []\<rparr>)
        else if uid = 9 then DoFailed
        else Response 404 None)\<rparr>"

definition example_listings :: ListingServiceClient where
  "example_listings =
     \<lparr>post_listings = (\<lambda>userID listingType price.
        Response 200
          (Some \<lparr>ls_Result = True, ls_Listings = [],
                 ls_Listing = Some \<lparr>l_ID = 4, l_UserID = userID, l_ListingType = listingType,
                                     l_Price = price, l_CreatedAt = 500, l_UpdatedAt = 500\<rparr>,
                 ls_Error = []\<rparr>)),
      get_listings = (\<lambda>pageNum pageSize userID.
        if userID = Some ''7'' then
          Response 200
            (Some \<lparr>ls_Result = True, ls_Listings = [], ls_Listing = None, ls_Error = []\<rparr>)
        else if pageNum = 1 then
          Response 200
            (Some \<lparr>ls_Result = True, ls_Listings = example_page, ls_Listing = None,
                   ls_Error = []\<rparr>)
        else Response 503 None)\<rparr>"

definition example_handler :: PublicAPIHandler where
  "example_handler =
     \<lparr>userServiceClient = example_users, listingServiceClient = example_listings\<rparr>"

text \<open>
  A stand-in for \<^verbatim>\<open>strconv.Atoi\<close> on the strings the examples use: the decimal
  numerals \<^verbatim>\<open>0\<close>, \<^verbatim>\<open>1\<close>, \<^verbatim>\<open>2\<close> and \<^verbatim>\<open>25\<close>; every other string is an error.
\<close>

definition example_atoi :: "unit atoi" where
  "example_atoi s =
     (if s = ''0'' then Inr 0
      else if s = ''1'' then Inr 1
      else if s = ''2'' then Inr 2
      else if s = ''25'' then Inr 25
      else Inl ())"

section \<open>Facts about the model\<close>


lemma userLookups_map: "userLookups (map CallGetUserByID uids) = uids"
  by (induction uids) simp_all

lemma uniqueUserIDs_eq: "uniqueUserIDs listings ids = ids \<union> l_UserID ` set listings"
  by (induction listings arbitrary: ids) auto

lemma aggregate_eq: "aggregate um listings acc = acc @ map (publicListing um) listings"
  by (induction listings arbitrary: acc) simp_all

lemma foundUser_Some:
  "foundUser c uid = Some user \<longleftrightarrow> GetUserByID c uid = Inr (Some user)"
  by (simp add: foundUser_def split: sum.splits)

lemma foundUser_None:
  "foundUser c uid = None
     \<longleftrightarrow> GetUserByID c uid = Inr None \<or> (\<exists>err. GetUserByID c uid = Inl err)"
  by (simp add: foundUser_def split: sum.splits)

lemma failedLookups_Cons:
  "failedLookups c (uid # uids)
     = (case GetUserByID c uid of Inl err \<Rightarrow> [(uid, err)] | Inr user \<Rightarrow> [])
         @ failedLookups c uids"
  by (simp add: failedLookups_def)

lemma set_failedLookups:
  "set (failedLookups c uids) = {(uid, err). uid \<in> set uids \<and> GetUserByID c uid = Inl err}"
  by (induction uids) (auto simp add: failedLookups_Cons failedLookups_def split: sum.splits)

lemma distinct_failedLookups:
  "distinct uids \<Longrightarrow> distinct (map fst (failedLookups c uids))"
proof (induction uids)
  case Nil
  then show ?case by (simp add: failedLookups_def)
next
  case (Cons k uids)
  then have "k \<notin> fst ` set (failedLookups c uids)"
    by (auto simp add: set_failedLookups)
  with Cons show ?case
    by (auto simp add: failedLookups_Cons split: sum.splits)
qed

subsection \<open>The order of the goroutines\<close>

lemma goroutineOrder_set: "finite ids \<Longrightarrow> set (goroutineOrder sched ids) = ids"
  by (simp add: goroutineOrder_def)

lemma goroutineOrder_distinct: "distinct (goroutineOrder sched ids)"
  by (simp add: goroutineOrder_def)

lemma goroutineOrder_length: "length (goroutineOrder sched ids) = card ids"
  by (simp add: goroutineOrder_def)

lemma goroutineOrder_page:
  "set (goroutineOrder sched (uniqueUserIDs listings {})) = l_UserID ` set listings"
  by (simp add: goroutineOrder_set uniqueUserIDs_eq)

lemma map_rankIn: "distinct ks \<Longrightarrow> map (rankIn ks) ks = [0..<length ks]"
proof (induction ks)
  case Nil
  then show ?case by simp
next
  case (Cons k ks)
  then have "\<forall>uid \<in> set ks. rankIn (k # ks) uid = Suc (rankIn ks uid)"
    by auto
  then have "map (rankIn (k # ks)) ks = map Suc (map (rankIn ks) ks)"
    by simp
  also from Cons have "\<dots> = [Suc 0..<Suc (length ks)]"
    by (simp add: map_Suc_upt)
  finally have "map (rankIn (k # ks)) (k # ks) = 0 # [Suc 0..<Suc (length ks)]"
    by simp
  then show ?case
    by (simp only: upt_conv_Cons [of 0, symmetric] length_Cons zero_less_Suc)
qed

text \<open>
  Every order of the keys is the order of some ranking: the statements below, which
  hold for every \<open>sched\<close>, hold for every order in which the goroutines can take effect.
\<close>

lemma every_order_is_scheduled:
  assumes "distinct ks"
  shows "goroutineOrder (rankIn ks) (set ks) = ks"
proof -
  let ?q = "goroutineOrder (rankIn ks) (set ks)"
  have q: "set ?q = set ks" "distinct ?q"
    by (simp_all add: goroutineOrder_set goroutineOrder_distinct)
  from assms have ranks: "map (rankIn ks) ks = [0..<length ks]"
    by (rule map_rankIn)
  then have "distinct (map (rankIn ks) ks)"
    by simp
  then have inj: "inj_on (rankIn ks) (set ks)"
    by (simp add: distinct_map)
  have "sorted (map (rankIn ks) ?q)"
    by (simp add: goroutineOrder_def)
  moreover have "distinct (map (rankIn ks) ?q)"
    using q inj by (simp add: distinct_map)
  moreover have "sorted (map (rankIn ks) ks)" "distinct (map (rankIn ks) ks)"
    by (simp_all add: ranks)
  moreover have "set (map (rankIn ks) ?q) = set (map (rankIn ks) ks)"
    using q(1) by simp
  ultimately have "map (rankIn ks) ?q = map (rankIn ks) ks"
    by (rule sorted_distinct_set_unique)
  with inj q(1) show ?thesis
    by (simp add: inj_on_map_eq_map)
qed

subsection \<open>The fan-out always reaches \<^verbatim>\<open>wg.Wait\<close>\<close>

text \<open>
  When the channel has room for one error of each goroutine still to run, every
  goroutine finishes, and the final state is determined by the lookups alone.
\<close>

lemma runAll_Some:
  "length (errorsChan st) + length uids \<le> cap \<Longrightarrow>
   \<exists>st'. runAll c cap uids st = Some st'
     \<and> lookups st' = lookups st @ uids
     \<and> errorsChan st' = errorsChan st @ failedLookups c uids
     \<and> (\<forall>uid. userMap st' uid
            = (if uid \<in> set uids \<and> foundUser c uid \<noteq> None then foundUser c uid
               else userMap st uid))"
proof (induction uids arbitrary: st)
  case Nil
  then show ?case by (simp add: failedLookups_def)
next
  case (Cons k uids)
  show ?case
  proof (cases "GetUserByID c k")
    case (Inl err)
    let ?st = "st\<lparr>lookups := lookups st @ [k], errorsChan := errorsChan st @ [(k, err)]\<rparr>"
    from Cons.prems Inl have step: "fetchUser c cap k st = Some ?st"
      by (simp add: fetchUser_def Let_def)
    from Cons.prems have "length (errorsChan ?st) + length uids \<le> cap"
      by simp
    from Cons.IH [OF this] obtain st' where st':
      "runAll c cap uids ?st = Some st'"
      "lookups st' = lookups ?st @ uids"
      "errorsChan st' = errorsChan ?st @ failedLookups c uids"
      "\<forall>uid. userMap st' uid
            = (if uid \<in> set uids \<and> foundUser c uid \<noteq> None then foundUser c uid
               else userMap ?st uid)"
      by blast
    from Inl have "foundUser c k = None"
      by (simp add: foundUser_def)
    with step st' Inl show ?thesis
      by (auto simp add: failedLookups_Cons)
  next
    case (Inr user)
    show ?thesis
    proof (cases user)
      case None
      let ?st = "st\<lparr>lookups := lookups st @ [k]\<rparr>"
      from Inr None have step: "fetchUser c cap k st = Some ?st"
        by (simp add: fetchUser_def Let_def)
      from Cons.prems have "length (errorsChan ?st) + length uids \<le> cap"
        by simp
      from Cons.IH [OF this] obtain st' where st':
        "runAll c cap uids ?st = Some st'"
        "lookups st' = lookups ?st @ uids"
        "errorsChan st' = errorsChan ?st @ failedLookups c uids"
        "\<forall>uid. userMap st' uid
              = (if uid \<in> set uids \<and> foundUser c uid \<noteq> None then foundUser c uid
                 else userMap ?st uid)"
        by blast
      from Inr None have "foundUser c k = None"
        by (simp add: foundUser_def)
      with step st' Inr show ?thesis
        by (auto simp add: failedLookups_Cons)
    next
      case (Some u)
      let ?st = "st\<lparr>lookups := lookups st @ [k], userMap := (userMap st)(k \<mapsto> u)\<rparr>"
      from Inr Some have step: "fetchUser c cap k st = Some ?st"
        by (simp add: fetchUser_def Let_def)
      from Cons.prems have "length (errorsChan ?st) + length uids \<le> cap"
        by simp
      from Cons.IH [OF this] obtain st' where st':
        "runAll c cap uids ?st = Some st'"
        "lookups st' = lookups ?st @ uids"
        "errorsChan st' = errorsChan ?st @ failedLookups c uids"
        "\<forall>uid. userMap st' uid
              = (if uid \<in> set uids \<and> foundUser c uid \<noteq> None then foundUser c uid
                 else userMap ?st uid)"
        by blast
      from Inr Some have "foundUser c k = Some u"
        by (simp add: foundUser_def)
      with step st' Inr show ?thesis
        by (auto simp add: failedLookups_Cons)
    qed
  qed
qed

lemma fetchUsers_Some:
  "\<exists>st. fetchUsers h sched listings = Some st
     \<and> lookups st = goroutineOrder sched (uniqueUserIDs listings {})
     \<and> errorsChan st
         = failedLookups (userServiceClient h) (goroutineOrder sched (uniqueUserIDs listings {}))
     \<and> (\<forall>uid. userMap st uid
            = (if uid \<in> l_UserID ` set listings then foundUser (userServiceClient h) uid
               else None))"
proof -
  let ?st0 = "\<lparr>userMap = Map.empty, errorsChan = [], lookups = []\<rparr>"
  let ?uids = "goroutineOrder sched (uniqueUserIDs listings {})"
  have "length (errorsChan ?st0) + length ?uids \<le> card (uniqueUserIDs listings {})"
    by (simp add: goroutineOrder_length)
  from runAll_Some [OF this, of "userServiceClient h"]
  show ?thesis
    by (auto simp add: fetchUsers_def Let_def goroutineOrder_page)
qed

text \<open>The whole handler on a page that was fetched.\<close>

lemma GetPublicListings_page:
  assumes fetch:
    "GetListings (listingServiceClient h) (pageNum atoi r) (pageSize atoi r) (user_id r)
       = Inr listings"
  shows "GetPublicListings atoi h sched r
    = Some (\<lparr>status = StatusOK,
             body = ListingsBody
               \<lparr>Result = True,
                Listings = map (publicListing (foundUser (userServiceClient h))) listings,
                Error = []\<rparr>\<rparr>,
            CallGetListings (pageNum atoi r) (pageSize atoi r) (user_id r)
              # map CallGetUserByID (goroutineOrder sched (uniqueUserIDs listings {})))"
proof (cases "listings = []")
  case True
  with fetch show ?thesis
    by (simp add: GetPublicListings_def goroutineOrder_def)
next
  case False
  from fetchUsers_Some [of h sched listings] obtain st where st:
    "fetchUsers h sched listings = Some st"
    "lookups st = goroutineOrder sched (uniqueUserIDs listings {})"
    "\<forall>uid. userMap st uid
       = (if uid \<in> l_UserID ` set listings then foundUser (userServiceClient h) uid else None)"
    by blast
  have "map (publicListing (userMap st)) listings
      = map (publicListing (foundUser (userServiceClient h))) listings"
    using st(3) by (simp add: publicListing_def)
  with False fetch st(1,2) show ?thesis
    by (simp add: GetPublicListings_def aggregate_eq)
qed

subsection \<open>The concrete handler\<close>

lemma example_CreateUser:
  "CreateUser example_users name
     = Inr (Some \<lparr>u_ID = 6, u_Name = name, u_CreatedAt = 400, u_UpdatedAt = 400\<rparr>)"
  by (simp add: CreateUser_def example_users_def StatusOK_def)

lemma example_CreateListing:
  "CreateListing example_listings userID listingType price
     = Inr (Some \<lparr>l_ID = 4, l_UserID = userID, l_ListingType = listingType,
                  l_Price = price, l_CreatedAt = 500, l_UpdatedAt = 500\<rparr>)"
  by (simp add: CreateListing_def example_listings_def StatusOK_def)

lemma example_GetUserByID:
  "GetUserByID example_users 5 = Inr (Some example_user)"
  "GetUserByID example_users 9 = Inl FailedToSendRequest"
  "GetUserByID example_users 8 = Inr None"
  by (simp_all add: GetUserByID_def example_users_def StatusOK_def StatusNotFound_def)

lemma example_foundUser:
  "foundUser example_users 5 = Some example_user"
  "foundUser example_users 9 = None"
  by (simp_all add: foundUser_def example_GetUserByID)

lemma example_GetListings:
  "GetListings example_listings 1 ps [] = Inr example_page"
  "GetListings example_listings 2 ps [] = Inl (NonOKStatus 503)"
  "GetListings example_listings pn ps ''7'' = Inr []"
  by (simp_all add: GetListings_def example_listings_def StatusOK_def)

lemma example_pageNum:
  "pageNum example_atoi \<lparr>page_num = ''2'', page_size = s, user_id = f\<rparr> = 2"
  "pageNum example_atoi \<lparr>page_num = ''1'', page_size = s, user_id = f\<rparr> = 1"
  "pageNum example_atoi \<lparr>page_num = ''0'', page_size = s, user_id = f\<rparr> = 1"
  "pageNum example_atoi \<lparr>page_num = [], page_size = s, user_id = f\<rparr> = 1"
  by (simp_all add: pageNum_def example_atoi_def)

lemma example_pageSize:
  "pageSize example_atoi \<lparr>page_num = n, page_size = ''25'', user_id = f\<rparr> = 25"
  "pageSize example_atoi \<lparr>page_num = n, page_size = ''0'', user_id = f\<rparr> = 10"
  "pageSize example_atoi \<lparr>page_num = n, page_size = [], user_id = f\<rparr> = 10"
  by (simp_all add: pageSize_def example_atoi_def)

lemma example_orders:
  "goroutineOrder (\<lambda>uid. 0) (uniqueUserIDs example_page {}) = [5, 9]"
  "goroutineOrder (rankIn [9, 5]) (uniqueUserIDs example_page {}) = [9, 5]"
  by (simp_all add: goroutineOrder_def example_page_def example_listing_def)

section \<open>The claims\<close>

text \<open>
  C1. For every listing page returned by the page fetch, the response carries as many
  enriched listings as the page has listings, and at every position the enriched listing
  has the identifier, listing type, price and timestamps of the listing at that
  position: the merge neither drops, reorders nor duplicates a listing. This holds for
  every order \<open>sched\<close> of the goroutines.
\<close>

theorem merge_preserves_listings:
  assumes "GetListings (listingServiceClient h) (pageNum atoi r) (pageSize atoi r) (user_id r)
             = Inr listings"
  shows "\<exists>resp calls enriched.
           GetPublicListings atoi h sched r = Some (resp, calls)
           \<and> body resp = ListingsBody \<lparr>Result = True, Listings = enriched, Error = []\<rparr>
           \<and> length enriched = length listings
           \<and> (\<forall>i < length listings.
                 pl_ID (enriched ! i) = l_ID (listings ! i)
                 \<and> pl_ListingType (enriched ! i) = l_ListingType (listings ! i)
                 \<and> pl_Price (enriched ! i) = l_Price (listings ! i)
                 \<and> pl_CreatedAt (enriched ! i) = l_CreatedAt (listings ! i)
                 \<and> pl_UpdatedAt (enriched ! i) = l_UpdatedAt (listings ! i))"
  using GetPublicListings_page [OF assms] by (simp add: publicListing_def)

theorem merge_preserves_listings_witness:
  "GetPublicListings example_atoi example_handler (\<lambda>uid. 0)
      \<lparr>page_num = ''1'', page_size = [], user_id = []\<rparr>
    = Some (\<lparr>status = StatusOK,
             body = ListingsBody
               \<lparr>Result = True,
                Listings =
                  [\<lparr>pl_ID = 1, pl_ListingType = ''rent'', pl_Price = 4500, pl_CreatedAt = 201,
                    pl_UpdatedAt = 301, pl_User = Some example_user\<rparr>,
                   \<lparr>pl_ID = 2, pl_ListingType = ''rent'', pl_Price = 4500, pl_CreatedAt = 202,
                    pl_UpdatedAt = 302, pl_User = Some example_user\<rparr>,
                   \<lparr>pl_ID = 3, pl_ListingType = ''rent'', pl_Price = 4500, pl_CreatedAt = 203,
                    pl_UpdatedAt = 303, pl_User = None\<rparr>],
                Error = []\<rparr>\<rparr>,
            [CallGetListings 1 10 [], CallGetUserByID 5, CallGetUserByID 9])
   \<and> map l_ID example_page = [1, 2, 3]"
proof -
  let ?r = "\<lparr>page_num = ''1'', page_size = [], user_id = []\<rparr>"
  have fetch: "GetListings (listingServiceClient example_handler) (pageNum example_atoi ?r)
      (pageSize example_atoi ?r) (user_id ?r) = Inr example_page"
    by (simp add: example_handler_def example_pageNum example_pageSize example_GetListings)
  have "map (publicListing (foundUser example_users)) example_page
      = [\<lparr>pl_ID = 1, pl_ListingType = ''rent'', pl_Price = 4500, pl_CreatedAt = 201,
          pl_UpdatedAt = 301, pl_User = Some example_user\<rparr>,
         \<lparr>pl_ID = 2, pl_ListingType = ''rent'', pl_Price = 4500, pl_CreatedAt = 202,
          pl_UpdatedAt = 302, pl_User = Some example_user\<rparr>,
         \<lparr>pl_ID = 3, pl_ListingType = ''rent'', pl_Price = 4500, pl_CreatedAt = 203,
          pl_UpdatedAt = 303, pl_User = None\<rparr>]"
    by (simp add: example_page_def example_listing_def publicListing_def example_foundUser)
  then have page: "GetPublicListings example_atoi example_handler (\<lambda>uid. 0) ?r
    = Some (\<lparr>status = StatusOK,
             body = ListingsBody
               \<lparr>Result = True,
                Listings =
                  [\<lparr>pl_ID = 1, pl_ListingType = ''rent'', pl_Price = 4500, pl_CreatedAt = 201,
                    pl_UpdatedAt = 301, pl_User = Some example_user\<rparr>,
                   \<lparr>pl_ID = 2, pl_ListingType = ''rent'', pl_Price = 4500, pl_CreatedAt = 202,
                    pl_UpdatedAt = 302, pl_User = Some example_user\<rparr>,
                   \<lparr>pl_ID = 3, pl_ListingType = ''rent'', pl_Price = 4500, pl_CreatedAt = 203,
                    pl_UpdatedAt = 303, pl_User = None\<rparr>],
                Error = []\<rparr>\<rparr>,
            [CallGetListings 1 10 [], CallGetUserByID 5, CallGetUserByID 9])"
    by (simp add: GetPublicListings_page [OF fetch] example_orders example_pageNum
        example_pageSize)
      (simp add: example_handler_def)
  have ids: "map l_ID example_page = [1, 2, 3]"
    by (simp add: example_page_def example_listing_def)
  from merge_preserves_listings [OF fetch, of "\<lambda>uid. 0"] page ids show ?thesis
    by simp
qed

text \<open>
  C2. When the page fetch succeeds, no outcome of a user lookup fails the request: the
  handler answers 200 with \<^verbatim>\<open>Result\<close> true; a listing whose reference resolves to a user
  embeds that user; and the embedded user is absent exactly for the listings whose
  reference was not found or whose lookup failed.
\<close>

theorem lookup_outcomes_absorbed:
  assumes "GetListings (listingServiceClient h) (pageNum atoi r) (pageSize atoi r) (user_id r)
             = Inr listings"
  shows "\<exists>resp calls enriched.
           GetPublicListings atoi h sched r = Some (resp, calls)
           \<and> status resp = StatusOK
           \<and> body resp = ListingsBody \<lparr>Result = True, Listings = enriched, Error = []\<rparr>
           \<and> length enriched = length listings
           \<and> (\<forall>i < length listings.
                 (\<forall>user. GetUserByID (userServiceClient h) (l_UserID (listings ! i))
                            = Inr (Some user)
                    \<longrightarrow> pl_User (enriched ! i) = Some user)
                 \<and> (pl_User (enriched ! i) = None
                    \<longleftrightarrow> GetUserByID (userServiceClient h) (l_UserID (listings ! i)) = Inr None
                       \<or> (\<exists>err. GetUserByID (userServiceClient h) (l_UserID (listings ! i))
                                  = Inl err)))"
  using GetPublicListings_page [OF assms]
  by (simp add: publicListing_def foundUser_Some foundUser_None)

theorem lookup_outcomes_absorbed_witness:
  "GetPublicListings example_atoi example_handler (rankIn [9, 5])
      \<lparr>page_num = [], page_size = ''0'', user_id = []\<rparr>
    = Some (\<lparr>status = StatusOK,
             body = ListingsBody
               \<lparr>Result = True,
                Listings = map (publicListing [5 \<mapsto> example_user]) example_page,
                Error = []\<rparr>\<rparr>,
            [CallGetListings 1 10 [], CallGetUserByID 9, CallGetUserByID 5])
   \<and> map l_UserID example_page = [5, 5, 9]
   \<and> map pl_User (map (publicListing [5 \<mapsto> example_user]) example_page)
       = [Some example_user, Some example_user, None]
   \<and> GetUserByID example_users 5 = Inr (Some example_user)
   \<and> GetUserByID example_users 9 = Inl FailedToSendRequest"
proof -
  let ?r = "\<lparr>page_num = [], page_size = ''0'', user_id = []\<rparr>"
  have fetch: "GetListings (listingServiceClient example_handler) (pageNum example_atoi ?r)
      (pageSize example_atoi ?r) (user_id ?r) = Inr example_page"
    by (simp add: example_handler_def example_pageNum example_pageSize example_GetListings)
  have "map (publicListing (foundUser example_users)) example_page
      = map (publicListing [5 \<mapsto> example_user]) example_page"
    by (simp add: example_page_def example_listing_def publicListing_def example_foundUser)
  then have page: "GetPublicListings example_atoi example_handler (rankIn [9, 5]) ?r
    = Some (\<lparr>status = StatusOK,
             body = ListingsBody
               \<lparr>Result = True,
                Listings = map (publicListing [5 \<mapsto> example_user]) example_page,
                Error = []\<rparr>\<rparr>,
            [CallGetListings 1 10 [], CallGetUserByID 9, CallGetUserByID 5])"
    by (simp add: GetPublicListings_page [OF fetch] example_orders example_pageNum
        example_pageSize)
      (simp add: example_handler_def)
  have refs: "map l_UserID example_page = [5, 5, 9]"
    "map pl_User (map (publicListing [5 \<mapsto> example_user]) example_page)
       = [Some example_user, Some example_user, None]"
    by (simp_all add: example_page_def example_listing_def publicListing_def)
  from lookup_outcomes_absorbed [OF fetch, of "rankIn [9, 5]"] page refs show ?thesis
    by (simp add: example_GetUserByID)
qed

text \<open>
  C3, as the code has it. After all goroutines have finished, \<^verbatim>\<open>userMap\<close> holds one entry
  for each distinct user reference of the page whose lookup returned a user, that user,
  and no entry for a reference that was not found or whose lookup failed; each failed
  lookup has sent exactly one error to \<^verbatim>\<open>errorsChan\<close>, and a reference that was not found
  is recorded nowhere.
\<close>

theorem found_users_recorded:
  "\<exists>st. fetchUsers h sched listings = Some st
     \<and> dom (userMap st)
         = {uid \<in> l_UserID ` set listings.
              \<exists>user. GetUserByID (userServiceClient h) uid = Inr (Some user)}
     \<and> (\<forall>uid user. userMap st uid = Some user
           \<longrightarrow> GetUserByID (userServiceClient h) uid = Inr (Some user))
     \<and> set (errorsChan st)
         = {(uid, err). uid \<in> l_UserID ` set listings
              \<and> GetUserByID (userServiceClient h) uid = Inl err}
     \<and> distinct (map fst (errorsChan st))"
proof -
  let ?uids = "goroutineOrder sched (uniqueUserIDs listings {})"
  from fetchUsers_Some [of h sched listings] obtain st where st:
    "fetchUsers h sched listings = Some st"
    "errorsChan st = failedLookups (userServiceClient h) ?uids"
    "\<forall>uid. userMap st uid
       = (if uid \<in> l_UserID ` set listings then foundUser (userServiceClient h) uid else None)"
    by blast
  have "dom (userMap st)
      = {uid \<in> l_UserID ` set listings.
           \<exists>user. GetUserByID (userServiceClient h) uid = Inr (Some user)}"
    using st(3) by (auto simp add: dom_def foundUser_Some split: if_splits)
  moreover have "\<forall>uid user. userMap st uid = Some user
           \<longrightarrow> GetUserByID (userServiceClient h) uid = Inr (Some user)"
    using st(3) by (auto simp add: foundUser_Some split: if_splits)
  moreover have "set (errorsChan st)
         = {(uid, err). uid \<in> l_UserID ` set listings
              \<and> GetUserByID (userServiceClient h) uid = Inl err}"
    using st(2) by (simp add: set_failedLookups goroutineOrder_page)
  moreover have "distinct (map fst (errorsChan st))"
    using st(2) by (simp add: distinct_failedLookups goroutineOrder_distinct)
  ultimately show ?thesis
    using st(1) by blast
qed

lemma example_fetchUsers:
  "fetchUsers example_handler (\<lambda>uid. 0) example_page
     = Some \<lparr>userMap = [5 \<mapsto> example_user], errorsChan = [(9, FailedToSendRequest)],
             lookups = [5, 9]\<rparr>"
  by (simp add: fetchUsers_def Let_def example_orders example_handler_def fetchUser_def
      example_GetUserByID)
    (simp add: example_page_def example_listing_def)

theorem found_users_recorded_witness:
  "fetchUsers example_handler (\<lambda>uid. 0) example_page
     = Some \<lparr>userMap = [5 \<mapsto> example_user], errorsChan = [(9, FailedToSendRequest)],
             lookups = [5, 9]\<rparr>
   \<and> l_UserID ` set example_page = {5, 9}"
  using found_users_recorded [of example_handler "\<lambda>uid. 0" example_page]
  by (simp add: example_fetchUsers) (simp add: example_page_def example_listing_def)

text \<open>
  C3, as the claim states it, fails: in the page of the concrete handler the reference 9
  is one of the distinct user references, its lookup fails, and after the fan-out
  \<^verbatim>\<open>userMap\<close> has no entry for it.
\<close>

theorem one_entry_per_reference_counterexample:
  "fetchUsers example_handler (\<lambda>uid. 0) example_page \<noteq> None
   \<and> 9 \<in> uniqueUserIDs example_page {}
   \<and> 9 \<notin> dom (userMap (the (fetchUsers example_handler (\<lambda>uid. 0) example_page)))"
  by (simp add: example_fetchUsers) (simp add: example_page_def example_listing_def)

text \<open>
  C4. For a page of N listings with M distinct user references the handler calls
  \<^verbatim>\<open>GetUserByID\<close> exactly M times, once for each distinct reference and with no other
  identifier, whatever N is (M is at most N). Every listing embeds what the one lookup
  of its reference returned: the user when there is one, nothing when the reference was
  not found or the lookup failed. So two listings with the same reference embed the
  same user, and when that reference resolves to a user, both embed that user.
\<close>

theorem one_lookup_per_distinct_reference:
  assumes "GetListings (listingServiceClient h) (pageNum atoi r) (pageSize atoi r) (user_id r)
             = Inr listings"
  shows "\<exists>resp calls enriched.
           GetPublicListings atoi h sched r = Some (resp, calls)
           \<and> body resp = ListingsBody \<lparr>Result = True, Listings = enriched, Error = []\<rparr>
           \<and> length (userLookups calls) = card (l_UserID ` set listings)
           \<and> distinct (userLookups calls)
           \<and> set (userLookups calls) = l_UserID ` set listings
           \<and> card (l_UserID ` set listings) \<le> length listings
           \<and> length enriched = length listings
           \<and> (\<forall>i < length listings.
                 pl_User (enriched ! i)
                   = (case GetUserByID (userServiceClient h) (l_UserID (listings ! i)) of
                        Inl err \<Rightarrow> None
                      | Inr user \<Rightarrow> user))
           \<and> (\<forall>i < length listings. \<forall>j < length listings.
                 l_UserID (listings ! i) = l_UserID (listings ! j)
                 \<longrightarrow> pl_User (enriched ! i) = pl_User (enriched ! j)
                     \<and> (\<forall>user. GetUserByID (userServiceClient h) (l_UserID (listings ! i))
                                  = Inr (Some user)
                           \<longrightarrow> pl_User (enriched ! i) = Some user
                               \<and> pl_User (enriched ! j) = Some user))"
proof -
  let ?uids = "goroutineOrder sched (uniqueUserIDs listings {})"
  let ?enriched = "map (publicListing (foundUser (userServiceClient h))) listings"
  have lookups: "length ?uids = card (l_UserID ` set listings)"
    by (simp add: goroutineOrder_length uniqueUserIDs_eq)
  have le: "card (l_UserID ` set listings) \<le> length listings"
    using card_image_le [of "set listings" l_UserID] card_length [of listings]
    by simp
  have embed: "\<forall>i < length listings.
      pl_User (?enriched ! i)
        = (case GetUserByID (userServiceClient h) (l_UserID (listings ! i)) of
             Inl err \<Rightarrow> None
           | Inr user \<Rightarrow> user)"
    by (simp add: publicListing_def foundUser_def)
  have shared: "\<forall>i < length listings. \<forall>j < length listings.
      l_UserID (listings ! i) = l_UserID (listings ! j)
      \<longrightarrow> pl_User (?enriched ! i) = pl_User (?enriched ! j)
          \<and> (\<forall>user. GetUserByID (userServiceClient h) (l_UserID (listings ! i))
                       = Inr (Some user)
                \<longrightarrow> pl_User (?enriched ! i) = Some user
                    \<and> pl_User (?enriched ! j) = Some user)"
    by (simp add: publicListing_def foundUser_def)
  show ?thesis
  proof (intro exI conjI)
    show "GetPublicListings atoi h sched r
        = Some (\<lparr>status = StatusOK,
                 body = ListingsBody \<lparr>Result = True, Listings = ?enriched, Error = []\<rparr>\<rparr>,
                CallGetListings (pageNum atoi r) (pageSize atoi r) (user_id r)
                  # map CallGetUserByID ?uids)"
      by (rule GetPublicListings_page [OF assms])
  next
    show "length ?enriched = length listings"
      by simp
  next
    show "\<forall>i < length listings.
      pl_User (?enriched ! i)
        = (case GetUserByID (userServiceClient h) (l_UserID (listings ! i)) of
             Inl err \<Rightarrow> None
           | Inr user \<Rightarrow> user)"
      by (rule embed)
  next
    show "\<forall>i < length listings. \<forall>j < length listings.
      l_UserID (listings ! i) = l_UserID (listings ! j)
      \<longrightarrow> pl_User (?enriched ! i) = pl_User (?enriched ! j)
          \<and> (\<forall>user. GetUserByID (userServiceClient h) (l_UserID (listings ! i))
                       = Inr (Some user)
                \<longrightarrow> pl_User (?enriched ! i) = Some user
                    \<and> pl_User (?enriched ! j) = Some user)"
      by (rule shared)
  qed (simp_all add: userLookups_map lookups le goroutineOrder_distinct goroutineOrder_page)
qed

theorem one_lookup_per_distinct_reference_witness:
  "GetPublicListings example_atoi example_handler (\<lambda>uid. 0)
      \<lparr>page_num = ''1'', page_size = ''25'', user_id = []\<rparr>
    = Some (\<lparr>status = StatusOK,
             body = ListingsBody
               \<lparr>Result = True,
                Listings = map (publicListing [5 \<mapsto> example_user]) example_page,
                Error = []\<rparr>\<rparr>,
            [CallGetListings 1 25 [], CallGetUserByID 5, CallGetUserByID 9])
   \<and> userLookups [CallGetListings 1 25 [], CallGetUserByID 5, CallGetUserByID 9] = [5, 9]
   \<and> length example_page = 3
   \<and> card (l_UserID ` set example_page) = 2
   \<and> l_UserID (example_page ! 0) = 5
   \<and> l_UserID (example_page ! 1) = 5
   \<and> GetUserByID (userServiceClient example_handler) 5 = Inr (Some example_user)
   \<and> pl_User (map (publicListing [5 \<mapsto> example_user]) example_page ! 0) = Some example_user
   \<and> pl_User (map (publicListing [5 \<mapsto> example_user]) example_page ! 1) = Some example_user"
proof -
  let ?r = "\<lparr>page_num = ''1'', page_size = ''25'', user_id = []\<rparr>"
  have fetch: "GetListings (listingServiceClient example_handler) (pageNum example_atoi ?r)
      (pageSize example_atoi ?r) (user_id ?r) = Inr example_page"
    by (simp add: example_handler_def example_pageNum example_pageSize example_GetListings)
  have "map (publicListing (foundUser example_users)) example_page
      = map (publicListing [5 \<mapsto> example_user]) example_page"
    by (simp add: example_page_def example_listing_def publicListing_def example_foundUser)
  then have page: "GetPublicListings example_atoi example_handler (\<lambda>uid. 0) ?r
    = Some (\<lparr>status = StatusOK,
             body = ListingsBody
               \<lparr>Result = True,
                Listings = map (publicListing [5 \<mapsto> example_user]) example_page,
                Error = []\<rparr>\<rparr>,
            [CallGetListings 1 25 [], CallGetUserByID 5, CallGetUserByID 9])"
    by (simp add: GetPublicListings_page [OF fetch] example_orders example_pageNum
        example_pageSize)
      (simp add: example_handler_def)
  have counts: "length example_page = 3" "card (l_UserID ` set example_page) = 2"
    "l_UserID (example_page ! 0) = 5" "l_UserID (example_page ! 1) = 5"
    "pl_User (map (publicListing [5 \<mapsto> example_user]) example_page ! 0) = Some example_user"
    "pl_User (map (publicListing [5 \<mapsto> example_user]) example_page ! 1) = Some example_user"
    by (simp_all add: example_page_def example_listing_def publicListing_def)
  have user: "GetUserByID (userServiceClient example_handler) 5 = Inr (Some example_user)"
    by (simp add: example_handler_def example_GetUserByID)
  from one_lookup_per_distinct_reference [OF fetch, of "\<lambda>uid. 0"] page counts user
  show ?thesis
    by simp
qed

text \<open>
  C5. When the page fetch fails, the handler answers 500 with \<^verbatim>\<open>Result\<close> false and a
  non-empty error string, the response carries no listing, and no user lookup is made.
\<close>

theorem page_fetch_failure_is_fatal:
  assumes "GetListings (listingServiceClient h) (pageNum atoi r) (pageSize atoi r) (user_id r)
             = Inl err"
  shows "\<exists>resp calls msg.
           GetPublicListings atoi h sched r = Some (resp, calls)
           \<and> status resp = StatusInternalServerError
           \<and> body resp = ListingsBody \<lparr>Result = False, Listings = [], Error = msg\<rparr>
           \<and> msg \<noteq> []
           \<and> userLookups calls = []"
  using assms by (simp add: GetPublicListings_def)

theorem page_fetch_failure_is_fatal_witness:
  "GetPublicListings example_atoi example_handler (\<lambda>uid. 0)
      \<lparr>page_num = ''2'', page_size = [], user_id = []\<rparr>
    = Some (\<lparr>status = StatusInternalServerError,
             body = ListingsBody
               \<lparr>Result = False, Listings = [], Error = ''Failed to retrieve listings''\<rparr>\<rparr>,
            [CallGetListings 2 10 []])"
proof -
  let ?r = "\<lparr>page_num = ''2'', page_size = [], user_id = []\<rparr>"
  have fetch: "GetListings (listingServiceClient example_handler) (pageNum example_atoi ?r)
      (pageSize example_atoi ?r) (user_id ?r) = Inl (NonOKStatus 503)"
    by (simp add: example_handler_def example_pageNum example_pageSize example_GetListings)
  from page_fetch_failure_is_fatal [OF fetch, of "\<lambda>uid. 0"] fetch show ?thesis
    by (simp add: GetPublicListings_def example_pageNum example_pageSize)
qed

text \<open>
  C6. When the page fetch succeeds with zero listings, the handler answers 200 with
  \<^verbatim>\<open>Result\<close> true and an empty sequence of listings, and no user lookup is made.
\<close>

theorem empty_page_is_success:
  assumes "GetListings (listingServiceClient h) (pageNum atoi r) (pageSize atoi r) (user_id r)
             = Inr []"
  shows "\<exists>calls.
           GetPublicListings atoi h sched r
             = Some (\<lparr>status = StatusOK,
                      body = ListingsBody \<lparr>Result = True, Listings = [], Error = []\<rparr>\<rparr>, calls)
           \<and> userLookups calls = []"
  using assms by (simp add: GetPublicListings_def)

theorem empty_page_is_success_witness:
  "GetPublicListings example_atoi example_handler (\<lambda>uid. 0)
      \<lparr>page_num = ''1'', page_size = ''25'', user_id = ''7''\<rparr>
    = Some (\<lparr>status = StatusOK,
             body = ListingsBody \<lparr>Result = True, Listings = [], Error = []\<rparr>\<rparr>,
            [CallGetListings 1 25 ''7''])"
proof -
  let ?r = "\<lparr>page_num = ''1'', page_size = ''25'', user_id = ''7''\<rparr>"
  have fetch: "GetListings (listingServiceClient example_handler) (pageNum example_atoi ?r)
      (pageSize example_atoi ?r) (user_id ?r) = Inr []"
    by (simp add: example_handler_def example_GetListings)
  from empty_page_is_success [OF fetch, of "\<lambda>uid. 0"] fetch show ?thesis
    by (simp add: GetPublicListings_def example_pageNum example_pageSize)
qed

text \<open>
  C8. A create-user request with an empty name, and a create-listing request whose user
  reference is missing (zero), whose listing type is neither \<^verbatim>\<open>rent\<close> nor \<^verbatim>\<open>sale\<close>, or
  whose price is not strictly positive, is answered 400 with an error and makes no
  upstream call; so is a request whose body does not decode. A valid request makes
  exactly one upstream create call with the fields of the request, and the record that
  call returns is the body of the response, unchanged (when the call fails, the answer
  is 500 with a fixed error).
\<close>

theorem create_requests_validated:
  "CreatePublicUser h None
     = (\<lparr>status = StatusBadRequest, body = ErrorBody ''Invalid request body''\<rparr>, [])
   \<and> CreatePublicListing h None
     = (\<lparr>status = StatusBadRequest, body = ErrorBody ''Invalid request body''\<rparr>, [])
   \<and> (requestName = [] \<longrightarrow>
      CreatePublicUser h (Some requestName)
        = (\<lparr>status = StatusBadRequest, body = ErrorBody ''User name is required''\<rparr>, []))
   \<and> (requestName \<noteq> [] \<longrightarrow>
      CreatePublicUser h (Some requestName)
        = ((case CreateUser (userServiceClient h) requestName of
              Inr user \<Rightarrow> \<lparr>status = StatusOK, body = PublicUserResponse user\<rparr>
            | Inl err \<Rightarrow> \<lparr>status = StatusInternalServerError,
                          body = ErrorBody ''Failed to create user''\<rparr>),
           [CallCreateUser requestName]))
   \<and> (UserID b = 0 \<or> (ListingType b \<noteq> ''rent'' \<and> ListingType b \<noteq> ''sale'')
        \<or> \<not> 0 <s Price b \<longrightarrow>
      status (fst (CreatePublicListing h (Some b))) = StatusBadRequest
      \<and> (\<exists>msg. body (fst (CreatePublicListing h (Some b))) = ErrorBody msg)
      \<and> snd (CreatePublicListing h (Some b)) = [])
   \<and> (UserID b \<noteq> 0 \<and> (ListingType b = ''rent'' \<or> ListingType b = ''sale'') \<and> 0 <s Price b \<longrightarrow>
      CreatePublicListing h (Some b)
        = ((case CreateListing (listingServiceClient h) (UserID b) (ListingType b) (Price b) of
              Inr listing \<Rightarrow> \<lparr>status = StatusOK, body = ListingBody listing\<rparr>
            | Inl err \<Rightarrow> \<lparr>status = StatusInternalServerError,
                          body = ErrorBody ''Failed to create listing''\<rparr>),
           [CallCreateListing (UserID b) (ListingType b) (Price b)]))"
proof (intro conjI impI)
  show "CreatePublicUser h None
     = (\<lparr>status = StatusBadRequest, body = ErrorBody ''Invalid request body''\<rparr>, [])"
    by (simp add: CreatePublicUser_def)
next
  show "CreatePublicListing h None
     = (\<lparr>status = StatusBadRequest, body = ErrorBody ''Invalid request body''\<rparr>, [])"
    by (simp add: CreatePublicListing_def)
next
  assume "requestName = []"
  then show "CreatePublicUser h (Some requestName)
        = (\<lparr>status = StatusBadRequest, body = ErrorBody ''User name is required''\<rparr>, [])"
    by (simp add: CreatePublicUser_def)
next
  assume "requestName \<noteq> []"
  then show "CreatePublicUser h (Some requestName)
        = ((case CreateUser (userServiceClient h) requestName of
              Inr user \<Rightarrow> \<lparr>status = StatusOK, body = PublicUserResponse user\<rparr>
            | Inl err \<Rightarrow> \<lparr>status = StatusInternalServerError,
                          body = ErrorBody ''Failed to create user''\<rparr>),
           [CallCreateUser requestName])"
    by (simp add: CreatePublicUser_def split: sum.splits)
next
  assume "UserID b = 0 \<or> (ListingType b \<noteq> ''rent'' \<and> ListingType b \<noteq> ''sale'')
        \<or> \<not> 0 <s Price b"
  then have bad: "UserID b = 0 \<or> (ListingType b \<noteq> ''rent'' \<and> ListingType b \<noteq> ''sale'')
        \<or> Price b \<le>s 0"
    by (auto simp add: word_sle_eq word_sless_alt)
  show "status (fst (CreatePublicListing h (Some b))) = StatusBadRequest"
    using bad by (auto simp add: CreatePublicListing_def)
  show "\<exists>msg. body (fst (CreatePublicListing h (Some b))) = ErrorBody msg"
    using bad by (auto simp add: CreatePublicListing_def)
  show "snd (CreatePublicListing h (Some b)) = []"
    using bad by (auto simp add: CreatePublicListing_def)
next
  assume ok: "UserID b \<noteq> 0 \<and> (ListingType b = ''rent'' \<or> ListingType b = ''sale'')
      \<and> 0 <s Price b"
  then have price: "\<not> Price b \<le>s 0"
    by (simp add: word_sle_eq word_sless_alt)
  from ok have ty: "ListingType b \<noteq> []"
    by auto
  from ok price ty
  show "CreatePublicListing h (Some b)
        = ((case CreateListing (listingServiceClient h) (UserID b) (ListingType b) (Price b) of
              Inr listing \<Rightarrow> \<lparr>status = StatusOK, body = ListingBody listing\<rparr>
            | Inl err \<Rightarrow> \<lparr>status = StatusInternalServerError,
                          body = ErrorBody ''Failed to create listing''\<rparr>),
           [CallCreateListing (UserID b) (ListingType b) (Price b)])"
    by (auto simp add: CreatePublicListing_def split: sum.splits)
qed

theorem create_requests_validated_witness:
  "CreatePublicUser example_handler (Some [])
     = (\<lparr>status = StatusBadRequest, body = ErrorBody ''User name is required''\<rparr>, [])
   \<and> CreatePublicUser example_handler (Some ''B'')
     = (\<lparr>status = StatusOK,
         body = PublicUserResponse
           (Some \<lparr>u_ID = 6, u_Name = ''B'', u_CreatedAt = 400, u_UpdatedAt = 400\<rparr>)\<rparr>,
        [CallCreateUser ''B''])
   \<and> CreatePublicListing example_handler
        (Some \<lparr>UserID = 5, ListingType = ''rent'', Price = 4500\<rparr>)
     = (\<lparr>status = StatusOK,
         body = ListingBody
           (Some \<lparr>l_ID = 4, l_UserID = 5, l_ListingType = ''rent'', l_Price = 4500,
                  l_CreatedAt = 500, l_UpdatedAt = 500\<rparr>)\<rparr>,
        [CallCreateListing 5 ''rent'' 4500])
   \<and> status (fst (CreatePublicListing example_handler
        (Some \<lparr>UserID = 5, ListingType = ''lease'', Price = 4500\<rparr>))) = StatusBadRequest
   \<and> snd (CreatePublicListing example_handler
        (Some \<lparr>UserID = 5, ListingType = ''lease'', Price = 4500\<rparr>)) = []
   \<and> snd (CreatePublicListing example_handler
        (Some \<lparr>UserID = 5, ListingType = ''sale'', Price = - 1\<rparr>)) = []
   \<and> snd (CreatePublicListing example_handler
        (Some \<lparr>UserID = 0, ListingType = ''sale'', Price = 4500\<rparr>)) = []"
  using create_requests_validated [of example_handler "[]"
      "\<lparr>UserID = 5, ListingType = ''rent'', Price = 4500\<rparr>"]
    create_requests_validated [of example_handler "''B''"
      "\<lparr>UserID = 5, ListingType = ''lease'', Price = 4500\<rparr>"]
    create_requests_validated [of example_handler "''B''"
      "\<lparr>UserID = 5, ListingType = ''sale'', Price = - 1\<rparr>"]
    create_requests_validated [of example_handler "''B''"
      "\<lparr>UserID = 0, ListingType = ''sale'', Price = 4500\<rparr>"]
  by (simp add: example_handler_def example_CreateUser example_CreateListing word_sless_alt)





end
